theory Spec2Isabelle
  imports Main "HOL-Library.Sublist"
begin

section \<open>Inventory ledger: the store and its operations (src/app.py)\<close>

subsection \<open>Python strings\<close>

text \<open>
  A Python string is a sequence of code points. The characters of the model are
  the code points 0..255 (Basic Latin and Latin-1, one \<^typ>\<open>char\<close> each) and
  two capitals for which Unicode has no lowercase form: U+2102 (double-struck
  capital C) and U+1D400 (mathematical bold capital A). On these,
  \<open>str.isupper\<close>, \<open>str.lower\<close> and \<open>str.strip\<close> have their Python meaning:
  uppercase are A..Z, the Latin-1 capitals 192..222 without the multiplication
  sign 215, each 32 below its lowercase letter, and the two capitals, which
  \<open>lower\<close> leaves as they are; whitespace is 9..13, 28..32, 133 and 160.
\<close>

datatype pychar =
    Latin1 char
  | U2102
  | U1D400

type_synonym pystr = "pychar list"

definition py :: "string \<Rightarrow> pystr" where
  "py s = map Latin1 s"

fun code_point :: "pychar \<Rightarrow> int" where
  "code_point (Latin1 c) = of_char c"
| "code_point U2102 = 8450"
| "code_point U1D400 = 119808"

definition isupper :: "pychar \<Rightarrow> bool" where
  "isupper c =
     (let n = code_point c
      in (65 \<le> n \<and> n \<le> 90) \<or> (192 \<le> n \<and> n \<le> 222 \<and> n \<noteq> 215)
         \<or> n = 8450 \<or> n = 119808)"

fun lower_char :: "pychar \<Rightarrow> pychar" where
  "lower_char (Latin1 c) =
     (if isupper (Latin1 c) then Latin1 (char_of (of_char c + 32 :: nat)) else Latin1 c)"
| "lower_char U2102 = U2102"
| "lower_char U1D400 = U1D400"

definition lower :: "pystr \<Rightarrow> pystr" where
  "lower s = map lower_char s"

definition isspace :: "pychar \<Rightarrow> bool" where
  "isspace c =
     (let n = code_point c
      in (9 \<le> n \<and> n \<le> 13) \<or> (28 \<le> n \<and> n \<le> 32) \<or> n = 133 \<or> n = 160)"

definition strip :: "pystr \<Rightarrow> pystr" where
  "strip s = rev (dropWhile isspace (rev (dropWhile isspace s)))"

text \<open>\<open>str(n)\<close> for a non-negative integer: its decimal digits.\<close>

definition digit_char :: "nat \<Rightarrow> pychar" where
  "digit_char d = Latin1 (char_of (d + 48))"

function str_nat :: "nat \<Rightarrow> pystr" where
  "str_nat n = (if n < 10 then [digit_char n] else str_nat (n div 10) @ [digit_char (n mod 10)])"
  by pat_completeness auto
termination
  by (relation "measure (\<lambda>n. n)") auto

declare str_nat.simps [simp del]

text \<open>
  psycopg2 does not pass a text parameter that contains the NUL character:
  \<open>cursor.execute\<close> raises \<open>ValueError\<close> before the statement reaches the
  store.
\<close>

definition text_ok :: "pystr \<Rightarrow> bool" where
  "text_ok s = (\<not> list_ex (\<lambda>c. code_point c = 0) s)"

subsection \<open>The store\<close>

text \<open>
  The two tables of \<open>create_products_table\<close> and \<open>create_transactions_table\<close>,
  as lists of rows in insertion order. A UUID is a natural number;
  \<open>gen_random_uuid()\<close> is a value no row of the table has yet. The column type
  INTEGER holds 32-bit signed values: a statement that stores a value outside
  that range raises, the operation's \<open>except Exception\<close> branch rolls back, and
  the store is left as it was.
\<close>

type_synonym uuid = nat
type_synonym date = pystr

record product =
  p_uuid :: uuid
  p_id :: pystr
  p_name :: pystr
  p_category :: "pystr option"
  p_stock :: int

record transaction =
  t_uuid :: uuid
  t_date :: date
  t_product_uuid :: uuid
  t_product_id :: pystr
  t_product_name :: pystr
  t_quantity_added :: int
  t_quantity_sold :: int
  t_remarks :: pystr

record database =
  products :: "product list"
  transactions :: "transaction list"

definition empty_database :: database where
  "empty_database = \<lparr>products = [], transactions = []\<rparr>"

text \<open>
  What psycopg2 raises from \<open>cursor.execute\<close>: a constraint violation with the
  constraint's name, a value out of the column's range, or a parameter it
  cannot pass.
\<close>

datatype db_exception =
    IntegrityError string
  | DataError
  | ValueError

text \<open>
  What the operations return as \<open>(False, message)\<close>:
  \<open>ValidationError\<close> is "Error: Product name must be lowercase only.",
  \<open>ConflictError\<close> is "Error: Product ID already exists.",
  \<open>NotFoundError\<close> is "Product not found.",
  \<open>InsufficientStockError\<close> is "Error: Not enough stock to sell.",
  \<open>NoChangeError\<close> is "No changes made.",
  \<open>StorageError\<close> is the text of any other exception.
\<close>

datatype error =
    ValidationError
  | ConflictError
  | NotFoundError
  | InsufficientStockError
  | NoChangeError
  | StorageError

definition in_int4 :: "int \<Rightarrow> bool" where
  "in_int4 n = (- 2147483648 \<le> n \<and> n \<le> 2147483647)"

definition gen_random_uuid :: "uuid list \<Rightarrow> uuid" where
  "gen_random_uuid used = Suc (foldr max used 0)"

subsection \<open>Data validation\<close>

definition validate_product_name :: "pystr \<Rightarrow> error + unit" where
  "validate_product_name name =
     (if list_ex isupper name then Inl ValidationError else Inr ())"

definition validate_stock_availability :: "int \<Rightarrow> int \<Rightarrow> error + int" where
  "validate_stock_availability current_stock quantity_to_sell =
     (let new_stock = current_stock - quantity_to_sell
      in if new_stock < 0 then Inl InsufficientStockError else Inr new_stock)"

subsection \<open>Product operations\<close>

text \<open>
  \<open>INSERT INTO products (id, name, category, stock)\<close>. A NUL in one of the
  three texts makes the driver raise. The table declares a primary key on
  \<open>uuid\<close>, which is generated, and NOT NULL on \<open>id\<close> and \<open>name\<close>; it
  declares no UNIQUE constraint on \<open>id\<close>, so the store itself raises only for
  an INTEGER out of range.
\<close>

definition insert_product ::
  "database \<Rightarrow> pystr \<Rightarrow> pystr \<Rightarrow> pystr option \<Rightarrow> int \<Rightarrow> db_exception + database" where
  "insert_product db pid name category stock =
     (if \<not> (text_ok pid \<and> text_ok name
              \<and> (case category of None \<Rightarrow> True | Some c \<Rightarrow> text_ok c))
      then Inl ValueError
      else if in_int4 stock
      then Inr (db\<lparr>products := products db @
             [\<lparr>p_uuid = gen_random_uuid (map p_uuid (products db)), p_id = pid,
               p_name = name, p_category = category, p_stock = stock\<rparr>]\<rparr>)
      else Inl DataError)"

definition add_product ::
  "database \<Rightarrow> pystr \<Rightarrow> pystr \<Rightarrow> pystr option \<Rightarrow> database \<times> (error + unit)" where
  "add_product db pid name category =
     (let pid' = strip pid; name' = strip (lower name)
      in case validate_product_name name' of
           Inl e \<Rightarrow> (db, Inl e)
         | Inr _ \<Rightarrow>
             (case insert_product db pid' name' category 0 of
                Inr db' \<Rightarrow> (db', Inr ())
              | Inl (IntegrityError c) \<Rightarrow>
                  if c = ''products_id_key'' then (db, Inl ConflictError)
                  else (db, Inl StorageError)
              | Inl _ \<Rightarrow> (db, Inl StorageError)))"

definition get_product_by_uuid :: "database \<Rightarrow> uuid \<Rightarrow> product option" where
  "get_product_by_uuid db product_uuid =
     find (\<lambda>p. p_uuid p = product_uuid) (products db)"

definition update_product_stock :: "database \<Rightarrow> uuid \<Rightarrow> int \<Rightarrow> db_exception + database" where
  "update_product_stock db product_uuid new_stock =
     (if in_int4 new_stock
      then Inr (db\<lparr>products :=
             map (\<lambda>p. if p_uuid p = product_uuid then p\<lparr>p_stock := new_stock\<rparr> else p)
               (products db)\<rparr>)
      else Inl DataError)"

subsection \<open>Transaction operations\<close>

text \<open>
  \<open>INSERT INTO transactions\<close>: \<open>product_uuid\<close> references \<open>products(uuid)\<close>,
  and the two quantities are INTEGER columns.
\<close>

definition record_transaction ::
  "database \<Rightarrow> date \<Rightarrow> uuid \<Rightarrow> pystr \<Rightarrow> pystr \<Rightarrow> int \<Rightarrow> int \<Rightarrow> pystr
     \<Rightarrow> db_exception + database" where
  "record_transaction db date product_uuid product_id product_name added sold remarks =
     (if \<not> list_ex (\<lambda>p. p_uuid p = product_uuid) (products db)
      then Inl (IntegrityError ''transactions_product_uuid_fkey'')
      else if \<not> (in_int4 added \<and> in_int4 sold) then Inl DataError
      else Inr (db\<lparr>transactions := transactions db @
             [\<lparr>t_uuid = gen_random_uuid (map t_uuid (transactions db)), t_date = date,
               t_product_uuid = product_uuid, t_product_id = product_id,
               t_product_name = product_name, t_quantity_added = added,
               t_quantity_sold = sold, t_remarks = remarks\<rparr>]\<rparr>))"

text \<open>
  \<open>update_stock\<close> returns the new stock on success (the source puts it in the
  message). When \<open>sold > 0\<close>, the value that \<open>validate_stock_availability\<close>
  returns is assigned to \<open>new_stock\<close> in place of the one computed before.
  Every exception is caught, rolled back and reported.
\<close>

definition update_stock ::
  "database \<Rightarrow> uuid \<Rightarrow> date \<Rightarrow> int \<Rightarrow> int \<Rightarrow> pystr \<Rightarrow> database \<times> (error + int)" where
  "update_stock db product_uuid date added sold remarks =
     (case get_product_by_uuid db product_uuid of
        None \<Rightarrow> (db, Inl NotFoundError)
      | Some product \<Rightarrow>
          (let current_stock = p_stock product;
               new_stock = current_stock + added - sold
           in case (if sold > 0 then validate_stock_availability current_stock sold
                    else Inr new_stock) of
                Inl e \<Rightarrow> (db, Inl e)
              | Inr new_stock \<Rightarrow>
                  (case update_product_stock db (p_uuid product) new_stock of
                     Inl _ \<Rightarrow> (db, Inl StorageError)
                   | Inr db1 \<Rightarrow>
                       (case record_transaction db1 date (p_uuid product) (p_id product)
                               (p_name product) added sold remarks of
                          Inl _ \<Rightarrow> (db, Inl StorageError)
                        | Inr db2 \<Rightarrow> (db2, Inr new_stock)))))"









subsection \<open>Summary reports\<close>

text \<open>
  \<open>get_stock_summary\<close>: the join of products and transactions on the product's
  UUID, filtered by \<open>quantity_added > 0\<close>, grouped by the four selected product
  columns, one row \<open>(id, name, category, total_added, current_stock)\<close> per
  group, ordered by the total, largest first. SQL leaves the order of equal
  totals open; the model keeps the groups in the order they first appear.
\<close>

type_synonym summary_row = "pystr \<times> pystr \<times> pystr option \<times> int \<times> int"

definition stock_join :: "database \<Rightarrow> (product \<times> transaction) list" where
  "stock_join db =
     concat (map (\<lambda>p. map (\<lambda>t. (p, t))
                     (filter (\<lambda>t. p_uuid p = t_product_uuid t \<and> 0 < t_quantity_added t)
                        (transactions db)))
               (products db))"

definition group_key :: "product \<Rightarrow> pystr \<times> pystr \<times> pystr option \<times> int" where
  "group_key p = (p_id p, p_name p, p_category p, p_stock p)"

definition total_added ::
  "(product \<times> transaction) list \<Rightarrow> pystr \<times> pystr \<times> pystr option \<times> int \<Rightarrow> int" where
  "total_added joined k =
     sum_list (map (\<lambda>(p, t). t_quantity_added t) (filter (\<lambda>(p, t). group_key p = k) joined))"

definition get_stock_summary :: "database \<Rightarrow> summary_row list" where
  "get_stock_summary db =
     (let joined = stock_join db;
          groups = rev (remdups (rev (map (\<lambda>(p, t). group_key p) joined)))
      in sort_key (\<lambda>(i, n, c, total, s). - total)
           (map (\<lambda>(i, n, c, s). (i, n, c, total_added joined (i, n, c, s), s)) groups))"

subsection \<open>CSV import\<close>

definition id_exists :: "database \<Rightarrow> pystr \<Rightarrow> bool" where
  "id_exists db pid = list_ex (\<lambda>p. p_id p = pid) (products db)"

definition suffixed :: "pystr \<Rightarrow> nat \<Rightarrow> pystr" where
  "suffixed original_pid counter = original_pid @ py ''('' @ str_nat counter @ py '')''"

text \<open>
  The \<open>while True\<close> loop of \<open>generate_unique_product_id\<close> on its two variables
  \<open>pid\<close> and \<open>counter\<close>. It ends because the candidates
  \<open>suffixed original_pid k\<close> are pairwise different and the table has finitely
  many rows: each round leaves one taken candidate fewer ahead.
\<close>

function probe_ids :: "database \<Rightarrow> pystr \<Rightarrow> pystr \<Rightarrow> nat \<Rightarrow> pystr" where
  "probe_ids db original_pid pid counter =
     (if id_exists db pid
      then probe_ids db original_pid (suffixed original_pid counter) (Suc counter)
      else pid)"
  by pat_completeness auto
termination
proof (relation "measure (\<lambda>(db, original_pid, pid, counter).
          card {k. counter \<le> k \<and> id_exists db (suffixed original_pid k)}
          + (if id_exists db pid then 1 else 0))")
  show "wf (measure (\<lambda>(db, original_pid, pid, counter).
          card {k. counter \<le> k \<and> id_exists db (suffixed original_pid k)}
          + (if id_exists db pid then 1 else 0)))"
    by simp
next
  fix db :: database and original_pid pid :: pystr and counter :: nat
  assume taken: "id_exists db pid"
  have nonempty: "str_nat n \<noteq> []" for n
    by (subst str_nat.simps) simp
  have digit: "a = b" if "a < 10" "b < 10" "digit_char a = digit_char b" for a b
  proof -
    from that(3) have "code_point (digit_char a) = code_point (digit_char b)" by simp
    with that(1,2) show ?thesis by (simp add: digit_char_def)
  qed
  have str_inj: "m = n" if "str_nat m = str_nat n" for m n
    using that
  proof (induction m arbitrary: n rule: str_nat.induct)
    case (1 m)
    note eq = \<open>str_nat m = str_nat n\<close>
    show ?case
    proof (cases "m < 10")
      case small_m: True
      show ?thesis
      proof (cases "n < 10")
        case True
        with small_m eq show ?thesis
          by (simp add: str_nat.simps[of m] str_nat.simps[of n] digit)
      next
        case False
        with small_m eq nonempty[of "n div 10"] show ?thesis
          by (simp add: str_nat.simps[of m] str_nat.simps[of n])
      qed
    next
      case big_m: False
      show ?thesis
      proof (cases "n < 10")
        case True
        with big_m eq nonempty[of "m div 10"] show ?thesis
          by (simp add: str_nat.simps[of m] str_nat.simps[of n])
      next
        case False
        with big_m eq have lead_eq: "str_nat (m div 10) = str_nat (n div 10)"
          and unit_eq: "digit_char (m mod 10) = digit_char (n mod 10)"
          by (simp_all add: str_nat.simps[of m] str_nat.simps[of n])
        have "m div 10 = n div 10" using "1.IH"[OF big_m lead_eq] .
        moreover have "m mod 10 = n mod 10" using unit_eq by (simp add: digit)
        ultimately show ?thesis by (metis div_mult_mod_eq)
      qed
    qed
  qed
  have "inj (suffixed original_pid)"
    by (rule injI) (auto simp: suffixed_def py_def dest: str_inj)
  moreover have "finite {i. id_exists db i}"
  proof -
    have "{i. id_exists db i} = set (map p_id (products db))"
      by (auto simp: id_exists_def list_ex_iff)
    then show ?thesis by simp
  qed
  ultimately have fin: "finite {k. id_exists db (suffixed original_pid k)}"
    using finite_vimageI[of "{i. id_exists db i}" "suffixed original_pid"]
    by (simp add: vimage_def)
  let ?A = "\<lambda>c. {k. c \<le> k \<and> id_exists db (suffixed original_pid k)}"
  have finA: "finite (?A c)" for c
    by (rule finite_subset[OF _ fin]) auto
  have step: "card (?A (Suc counter))
        + (if id_exists db (suffixed original_pid counter) then 1 else 0)
        = card (?A counter)"
  proof (cases "id_exists db (suffixed original_pid counter)")
    case True
    then have "?A counter = insert counter (?A (Suc counter))" by (auto simp: le_Suc_eq)
    moreover have "counter \<notin> ?A (Suc counter)" by simp
    ultimately show ?thesis using True finA[of "Suc counter"] by simp
  next
    case False
    then have "?A counter = ?A (Suc counter)"
      by (auto simp: Suc_le_eq) (metis le_neq_implies_less)
    with False show ?thesis by simp
  qed
  show "((db, original_pid, suffixed original_pid counter, Suc counter),
         (db, original_pid, pid, counter))
      \<in> measure (\<lambda>(db, original_pid, pid, counter).
          card {k. counter \<le> k \<and> id_exists db (suffixed original_pid k)}
          + (if id_exists db pid then 1 else 0))"
    using step taken by simp
qed

declare probe_ids.simps [simp del]

definition generate_unique_product_id :: "database \<Rightarrow> pystr \<Rightarrow> pystr" where
  "generate_unique_product_id db original_pid = probe_ids db original_pid original_pid 1"

text \<open>
  A row of the cleaned CSV frame. \<open>process_csv_products\<close> walks the rows with
  their index. Each round first calls \<open>generate_unique_product_id\<close>, whose
  queries carry the identifier as a text parameter: when the row's identifier
  has a NUL, the first query raises, nothing in \<open>process_csv_products\<close>
  catches it, and the function is left with the exception (the suffix adds no
  NUL, so a later query cannot raise for it). Otherwise \<open>add_product\<close> is
  called, which reports its own failures. The model returns \<open>Inl\<close> when the
  function is left by an exception, with the store and the warnings shown up
  to then, and \<open>Inr\<close> with the store, the count returned and the warnings
  (row number and message of each \<open>st.warning\<close>) when it returns.
\<close>

record csv_row =
  row_id :: pystr
  row_name :: pystr
  row_category :: pystr

type_synonym import_result =
  "(db_exception \<times> database \<times> (nat \<times> error) list)
   + (database \<times> nat \<times> (nat \<times> error) list)"

fun process_rows ::
  "database \<Rightarrow> nat \<Rightarrow> (nat \<times> error) list \<Rightarrow> nat \<Rightarrow> csv_row list \<Rightarrow> import_result" where
  "process_rows db added_count warnings idx [] = Inr (db, added_count, warnings)"
| "process_rows db added_count warnings idx (row # rows) =
     (if \<not> text_ok (row_id row) then Inl (ValueError, db, warnings)
      else
        (let pid = generate_unique_product_id db (row_id row);
             (db', result) = add_product db pid (row_name row) (Some (row_category row))
         in case result of
              Inr _ \<Rightarrow> process_rows db' (added_count + 1) warnings (Suc idx) rows
            | Inl message \<Rightarrow>
                process_rows db' added_count (warnings @ [(idx + 1, message)]) (Suc idx) rows))"

definition process_csv_products :: "database \<Rightarrow> csv_row list \<Rightarrow> import_result" where
  "process_csv_products db df_csv = process_rows db 0 [] 0 df_csv"

text \<open>
  The balance the movement records give for a product: what was added minus
  what was sold over the movements that reference it.
\<close>

definition ledger_balance :: "database \<Rightarrow> uuid \<Rightarrow> int" where
  "ledger_balance db product_uuid =
     sum_list (map t_quantity_added (filter (\<lambda>t. t_product_uuid t = product_uuid) (transactions db)))
     - sum_list (map t_quantity_sold (filter (\<lambda>t. t_product_uuid t = product_uuid) (transactions db)))"

text \<open>
  Per product: the movements that added stock to it, and the summary row they
  give, with their total and the product's current stock.
\<close>

definition added_movements :: "database \<Rightarrow> product \<Rightarrow> transaction list" where
  "added_movements db p =
     filter (\<lambda>t. p_uuid p = t_product_uuid t \<and> 0 < t_quantity_added t) (transactions db)"

definition product_summary :: "database \<Rightarrow> product \<Rightarrow> summary_row" where
  "product_summary db p =
     (p_id p, p_name p, p_category p,
      sum_list (map t_quantity_added (added_movements db p)), p_stock p)"


section \<open>Properties\<close>

subsection \<open>Strings and names\<close>

lemma code_point_latin1: "code_point (Latin1 a) = int (of_char a)"
  by (simp add: of_nat_of_char)





lemma upper_not_space: "isupper c \<Longrightarrow> \<not> isspace c"
  by (cases c) (auto simp: isupper_def isspace_def Let_def)

lemma lower_char_nul: "code_point (lower_char c) = 0 \<longleftrightarrow> code_point c = 0"
proof (cases c)
  case (Latin1 a)
  have "(of_char a :: nat) < 256" by simp
  with Latin1 show ?thesis
    by (auto simp: isupper_def Let_def code_point_latin1 simp del: code_point.simps(1))
qed auto

lemma set_dropWhile_keeps: "{x \<in> set xs. \<not> P x} \<subseteq> set (dropWhile P xs)"
  by (induction xs) auto

lemma set_strip: "set (strip s) \<subseteq> set s"
proof -
  have "set (strip s) \<subseteq> set (dropWhile isspace s)"
    unfolding strip_def using set_dropWhileD[of _ isspace "rev (dropWhile isspace s)"] by auto
  also have "\<dots> \<subseteq> set s" using set_dropWhileD[of _ isspace s] by auto
  finally show ?thesis .
qed

lemma set_strip_keeps: "{c \<in> set s. \<not> isspace c} \<subseteq> set (strip s)"
proof -
  have "{c \<in> set s. \<not> isspace c} \<subseteq> {c \<in> set (dropWhile isspace s). \<not> isspace c}"
    using set_dropWhile_keeps[of s isspace] by auto
  also have "\<dots> = {c \<in> set (rev (dropWhile isspace s)). \<not> isspace c}" by simp
  also have "\<dots> \<subseteq> set (dropWhile isspace (rev (dropWhile isspace s)))"
    by (rule set_dropWhile_keeps)
  finally show ?thesis by (simp add: strip_def)
qed

lemma strip_keeps_nonspace:
  assumes "\<And>c. P c \<Longrightarrow> \<not> isspace c"
  shows "list_ex P (strip s) = list_ex P s"
proof -
  have "list_ex P s \<Longrightarrow> list_ex P (strip s)"
    using assms set_strip_keeps[of s] unfolding list_ex_iff by blast
  moreover have "list_ex P (strip s) \<Longrightarrow> list_ex P s"
    using set_strip[of s] unfolding list_ex_iff by blast
  ultimately show ?thesis by blast
qed

lemma upper_after_normalising:
  "list_ex isupper (strip (lower name)) = list_ex (\<lambda>c. isupper (lower_char c)) name"
proof -
  have "list_ex isupper (strip (lower name)) = list_ex isupper (lower name)"
    by (rule strip_keeps_nonspace) (rule upper_not_space)
  also have "\<dots> = list_ex (\<lambda>c. isupper (lower_char c)) name"
    unfolding lower_def list_ex_iff by auto
  finally show ?thesis .
qed

lemma nul_not_space: "code_point c = 0 \<Longrightarrow> \<not> isspace c"
  by (simp add: isspace_def)

lemma text_ok_strip: "text_ok (strip s) = text_ok s"
  unfolding text_ok_def using strip_keeps_nonspace[of "\<lambda>c. code_point c = 0" s] nul_not_space
  by blast

lemma text_ok_lower: "text_ok (lower s) = text_ok s"
  unfolding text_ok_def lower_def list_ex_iff using lower_char_nul by auto

lemma add_product_cases:
  "add_product db pid name category =
     (if list_ex (\<lambda>c. isupper (lower_char c)) name then (db, Inl ValidationError)
      else if text_ok pid \<and> text_ok name
              \<and> (case category of None \<Rightarrow> True | Some c \<Rightarrow> text_ok c)
      then (db\<lparr>products := products db @
              [\<lparr>p_uuid = gen_random_uuid (map p_uuid (products db)), p_id = strip pid,
                p_name = strip (lower name), p_category = category, p_stock = 0\<rparr>]\<rparr>, Inr ())
      else (db, Inl StorageError))"
  unfolding add_product_def validate_product_name_def upper_after_normalising
    insert_product_def text_ok_strip text_ok_lower Let_def
  by (simp add: in_int4_def)


lemma add_product_products_prefix:
  "prefix (products db) (products (fst (add_product db pid name category)))"
  by (simp add: add_product_cases)

lemma add_product_transactions:
  "transactions (fst (add_product db pid name category)) = transactions db"
  by (simp add: add_product_cases)

text \<open>An \<open>add_product\<close> that fails leaves the store as it found it.\<close>

lemma add_product_failure_keeps_store:
  "add_product db pid name category = (db', Inl e) \<Longrightarrow> db' = db"
  by (simp add: add_product_cases split: if_splits)

subsection \<open>Stock updates\<close>

lemma find_uuid_map:
  assumes "\<And>p. p_uuid (f p) = p_uuid p"
  shows "find (\<lambda>p. p_uuid p = u) (map f ps) = map_option f (find (\<lambda>p. p_uuid p = u) ps)"
  using assms by (induction ps) auto

lemma find_uuid_found: "find (\<lambda>p. p_uuid p = u) ps = Some p \<Longrightarrow> p_uuid p = u \<and> p \<in> set ps"
  by (induction ps) (auto split: if_splits)

text \<open>
  What a successful \<open>update_stock\<close> does: it appends one movement with the
  product's identifier and name, and the stock it stores is
  \<open>stock - sold\<close> when \<open>sold > 0\<close> (the value \<open>validate_stock_availability\<close>
  returns replaces the candidate, and with it \<open>added\<close>), and
  \<open>stock + added - sold\<close> otherwise.
\<close>

lemma update_stock_result:
  assumes found: "get_product_by_uuid db u = Some p"
    and ok: "update_stock db u date added sold remarks = (db', Inr n)"
  shows "n = (if 0 < sold then p_stock p - sold else p_stock p + added - sold)"
    and "get_product_by_uuid db' u = Some (p\<lparr>p_stock := n\<rparr>)"
    and "transactions db' = transactions db @
           [\<lparr>t_uuid = gen_random_uuid (map t_uuid (transactions db)), t_date = date,
             t_product_uuid = u, t_product_id = p_id p, t_product_name = p_name p,
             t_quantity_added = added, t_quantity_sold = sold, t_remarks = remarks\<rparr>]"
proof -
  from found have pu: "p_uuid p = u"
    using find_uuid_found by (simp add: get_product_by_uuid_def) blast
  from found ok show "n = (if 0 < sold then p_stock p - sold else p_stock p + added - sold)"
    by (auto simp: update_stock_def validate_stock_availability_def update_product_stock_def
          record_transaction_def Let_def split: if_splits sum.splits)
  have fm: "find (\<lambda>p. p_uuid p = u)
               (map (\<lambda>p. if p_uuid p = u then p\<lparr>p_stock := n\<rparr> else p) (products db))
      = Some (p\<lparr>p_stock := n\<rparr>)"
    using found pu by (subst find_uuid_map) (auto simp: get_product_by_uuid_def)
  from found ok pu fm show "get_product_by_uuid db' u = Some (p\<lparr>p_stock := n\<rparr>)"
    by (auto simp: update_stock_def validate_stock_availability_def update_product_stock_def
          record_transaction_def Let_def get_product_by_uuid_def split: if_splits sum.splits)
  from found ok pu show "transactions db' = transactions db @
           [\<lparr>t_uuid = gen_random_uuid (map t_uuid (transactions db)), t_date = date,
             t_product_uuid = u, t_product_id = p_id p, t_product_name = p_name p,
             t_quantity_added = added, t_quantity_sold = sold, t_remarks = remarks\<rparr>]"
    by (auto simp: update_stock_def validate_stock_availability_def update_product_stock_def
          record_transaction_def Let_def split: if_splits sum.splits)
qed

text \<open>
  A call that adds or sells, but not both, keeps the stock equal to the balance
  of the movements.
\<close>

lemma update_stock_keeps_balance:
  assumes found: "get_product_by_uuid db u = Some p"
    and ok: "update_stock db u date added sold remarks = (db', Inr n)"
    and one_sided: "sold \<le> 0 \<or> added = 0"
    and inv: "p_stock p = ledger_balance db u"
  shows "n = ledger_balance db' u"
  using update_stock_result[OF found ok] one_sided inv
  by (auto simp: ledger_balance_def)

lemma update_stock_positive_sale_rejected:
  assumes "get_product_by_uuid db product_uuid = Some product"
    and "0 < sold" and "p_stock product < sold"
  shows "update_stock db product_uuid date added sold remarks = (db, Inl InsufficientStockError)"
  using assms by (simp add: update_stock_def validate_stock_availability_def)

text \<open>
  C1: the stock of a product equals the added minus the sold quantities of its
  movements after every sequence of successful stock updates. The source breaks
  this when one call both adds and sells: a product is created, 5 are added,
  then one call adds 3 and sells 2. The call succeeds and stores stock 3, while
  the movements balance to 5 + 3 - 2 = 6.
\<close>

theorem ledger_balance_diverges:
  "(let db1 = fst (add_product empty_database (py ''sku1'') (py ''widget'') (Some (py ''tools'')));
        db2 = fst (update_stock db1 1 (py ''2024-01-01'') 5 0 (py ''New stock received''));
        (db3, r3) = update_stock db2 1 (py ''2024-01-02'') 3 2 (py ''correction'')
    in (r3, map p_stock (products db3), ledger_balance db3 1)) = (Inr 3, [3], 6)"
  by code_simp

text \<open>
  C2: a successful stock update sets the stock to \<open>s + added - sold\<close>, also
  when both quantities are non-zero. The source does not: with stock 5, adding
  3 and selling 2 in one call stores 3, not 6, and records the movement
  (3, 2).
\<close>

theorem update_stock_drops_added:
  "update_stock
     \<lparr>products = [\<lparr>p_uuid = 1, p_id = py ''sku1'', p_name = py ''widget'',
                    p_category = Some (py ''tools''), p_stock = 5\<rparr>],
      transactions = []\<rparr> 1 (py ''2024-01-02'') 3 2 (py ''correction'')
   = (\<lparr>products = [\<lparr>p_uuid = 1, p_id = py ''sku1'', p_name = py ''widget'',
                      p_category = Some (py ''tools''), p_stock = 3\<rparr>],
       transactions = [\<lparr>t_uuid = 1, t_date = py ''2024-01-02'', t_product_uuid = 1,
                         t_product_id = py ''sku1'', t_product_name = py ''widget'',
                         t_quantity_added = 3, t_quantity_sold = 2,
                         t_remarks = py ''correction''\<rparr>]\<rparr>, Inr 3)"
  by code_simp

text \<open>
  C3: for a product with stock \<open>s\<close> (a non-negative integer in the data
  model) and a call with \<open>sold > s\<close>, the update fails with
  \<open>InsufficientStockError\<close> whatever \<open>added\<close> is, and the store is the one
  before the call: the product still has stock \<open>s\<close> and no movement was
  recorded.
\<close>

theorem update_stock_insufficient:
  assumes "get_product_by_uuid db product_uuid = Some product"
    and "0 \<le> p_stock product"
    and "p_stock product < sold"
  shows "update_stock db product_uuid date added sold remarks = (db, Inl InsufficientStockError)
     \<and> get_product_by_uuid (fst (update_stock db product_uuid date added sold remarks))
           product_uuid = Some product
     \<and> transactions (fst (update_stock db product_uuid date added sold remarks))
           = transactions db"
proof -
  from assms have "0 < sold" by simp
  with assms show ?thesis by (simp add: update_stock_positive_sale_rejected)
qed

text \<open>Stock 5, selling 10 while adding 20: rejected, stock still 5.\<close>

theorem update_stock_insufficient_witness:
  "get_product_by_uuid
     \<lparr>products = [\<lparr>p_uuid = 1, p_id = py ''sku1'', p_name = py ''widget'',
                    p_category = Some (py ''tools''), p_stock = 5\<rparr>],
      transactions = []\<rparr> 1
     = Some \<lparr>p_uuid = 1, p_id = py ''sku1'', p_name = py ''widget'',
             p_category = Some (py ''tools''), p_stock = 5\<rparr>
   \<and> update_stock
     \<lparr>products = [\<lparr>p_uuid = 1, p_id = py ''sku1'', p_name = py ''widget'',
                    p_category = Some (py ''tools''), p_stock = 5\<rparr>],
      transactions = []\<rparr> 1 (py ''2024-01-02'') 20 10 (py ''Sold to customer'')
     = (\<lparr>products = [\<lparr>p_uuid = 1, p_id = py ''sku1'', p_name = py ''widget'',
                        p_category = Some (py ''tools''), p_stock = 5\<rparr>],
         transactions = []\<rparr>, Inl InsufficientStockError)"
  using update_stock_insufficient
    [of "\<lparr>products = [\<lparr>p_uuid = 1, p_id = py ''sku1'', p_name = py ''widget'',
                        p_category = Some (py ''tools''), p_stock = 5\<rparr>],
          transactions = []\<rparr>" 1
        "\<lparr>p_uuid = 1, p_id = py ''sku1'', p_name = py ''widget'',
          p_category = Some (py ''tools''), p_stock = 5\<rparr>" 10 "(py ''2024-01-02'')" 20 "(py ''Sold to customer'')"]
  by (simp add: get_product_by_uuid_def)


subsection \<open>Creating products\<close>




text \<open>
  C5: creating a product whose identifier another product already has fails
  with \<open>ConflictError\<close>. The products table declares no uniqueness of \<open>id\<close>,
  so the insert never raises the \<open>products_id_key\<close> violation that
  \<open>add_product\<close> handles: with a product "sku1" in the store, creating
  "sku1" again succeeds and the store holds two products with that identifier.
\<close>

theorem add_product_accepts_duplicate_id:
  "add_product
     \<lparr>products = [\<lparr>p_uuid = 1, p_id = py ''sku1'', p_name = py ''widget'',
                    p_category = Some (py ''tools''), p_stock = 0\<rparr>],
      transactions = []\<rparr> (py ''sku1'') (py ''gadget'') (Some (py ''tools''))
   = (\<lparr>products = [\<lparr>p_uuid = 1, p_id = py ''sku1'', p_name = py ''widget'',
                      p_category = Some (py ''tools''), p_stock = 0\<rparr>,
                    \<lparr>p_uuid = 2, p_id = py ''sku1'', p_name = py ''gadget'',
                      p_category = Some (py ''tools''), p_stock = 0\<rparr>],
       transactions = []\<rparr>, Inr ())"
  by code_simp

subsection \<open>Allocating identifiers\<close>






subsection \<open>Updating product details\<close>













subsection \<open>CSV import\<close>

lemma process_rows_append:
  "process_rows db c w i (rows1 @ rows2) =
     (case process_rows db c w i rows1 of
        Inl raised \<Rightarrow> Inl raised
      | Inr (db1, c1, w1) \<Rightarrow> process_rows db1 c1 w1 (i + length rows1) rows2)"
  by (induction rows1 arbitrary: db c w i) (auto simp: Let_def split: prod.splits sum.splits)

lemma process_rows_bad_identifier:
  "\<not> text_ok (row_id row) \<Longrightarrow> process_rows db c w i (row # rows) = Inl (ValueError, db, w)"
  by simp

text \<open>
  A batch in which every identifier can be looked up is processed to its end:
  the function returns, every row has been counted or reported, and the
  products that were in the store are still its first products.
\<close>

lemma process_rows_returns:
  "list_all (\<lambda>row. text_ok (row_id row)) rows \<Longrightarrow>
     \<exists>db' c' w'. process_rows db c w i rows = Inr (db', c', w')
        \<and> c' + length w' = c + length w + length rows
        \<and> prefix (products db) (products db')
        \<and> transactions db' = transactions db"
proof (induction rows arbitrary: db c w i)
  case Nil
  then show ?case by simp
next
  case (Cons row rows)
  let ?r = "add_product db (generate_unique_product_id db (row_id row)) (row_name row)
              (Some (row_category row))"
  from Cons.prems have ok: "text_ok (row_id row)"
    and rest: "list_all (\<lambda>row. text_ok (row_id row)) rows" by simp_all
  have step: "prefix (products db) (products (fst ?r))" "transactions (fst ?r) = transactions db"
    by (rule add_product_products_prefix, rule add_product_transactions)
  show ?case
  proof (cases "snd ?r")
    case (Inl e)
    from Cons.IH[OF rest, of "fst ?r" c "w @ [(i + 1, e)]" "Suc i"] obtain db' c' w' where
      "process_rows (fst ?r) c (w @ [(i + 1, e)]) (Suc i) rows = Inr (db', c', w')"
      "c' + length w' = c + length (w @ [(i + 1, e)]) + length rows"
      "prefix (products (fst ?r)) (products db')" "transactions db' = transactions (fst ?r)"
      by blast
    with Inl ok step show ?thesis
      by (auto simp: Let_def split: prod.splits intro: prefix_order.trans)
  next
    case (Inr u)
    from Cons.IH[OF rest, of "fst ?r" "c + 1" w "Suc i"] obtain db' c' w' where
      "process_rows (fst ?r) (c + 1) w (Suc i) rows = Inr (db', c', w')"
      "c' + length w' = c + 1 + length w + length rows"
      "prefix (products (fst ?r)) (products db')" "transactions db' = transactions (fst ?r)"
      by blast
    with Inr ok step show ?thesis
      by (auto simp: Let_def split: prod.splits intro: prefix_order.trans)
  qed
qed

text \<open>
  A row that \<open>add_product\<close> rejects does not end the batch: the second name is
  the capital U+1D400, which validation rejects; the row is reported as row 2
  and the third row is added.
\<close>

lemma process_csv_products_reports_rejected_row:
  "process_csv_products empty_database
     [\<lparr>row_id = py ''sku1'', row_name = py ''widget'', row_category = py ''tools''\<rparr>,
      \<lparr>row_id = py ''sku2'', row_name = [U1D400], row_category = py ''parts''\<rparr>,
      \<lparr>row_id = py ''sku1'', row_name = py ''nut'', row_category = py ''parts''\<rparr>]
   = Inr (\<lparr>products = [\<lparr>p_uuid = 1, p_id = py ''sku1'', p_name = py ''widget'',
                           p_category = Some (py ''tools''), p_stock = 0\<rparr>,
                         \<lparr>p_uuid = 2, p_id = py ''sku1(1)'', p_name = py ''nut'',
                           p_category = Some (py ''parts''), p_stock = 0\<rparr>],
            transactions = []\<rparr>, 2, [(2, ValidationError)])"
  by code_simp

text \<open>
  C8: a failure on a row does not end the import, and every row of a batch is
  attempted. The source calls \<open>generate_unique_product_id\<close> outside every
  \<open>try\<close>: when the identifier of the second of three rows has a NUL
  character, the lookup raises, \<open>process_csv_products\<close> is left by the
  exception after the first row was stored, and the third row is never
  attempted.
\<close>

theorem process_csv_products_aborts_on_identifier:
  "process_csv_products empty_database
     [\<lparr>row_id = py ''sku1'', row_name = py ''widget'', row_category = py ''tools''\<rparr>,
      \<lparr>row_id = [Latin1 CHR ''b'', Latin1 (CHR 0x00)], row_name = py ''bolt'',
        row_category = py ''parts''\<rparr>,
      \<lparr>row_id = py ''sku3'', row_name = py ''nut'', row_category = py ''parts''\<rparr>]
   = Inl (ValueError,
          \<lparr>products = [\<lparr>p_uuid = 1, p_id = py ''sku1'', p_name = py ''widget'',
                           p_category = Some (py ''tools''), p_stock = 0\<rparr>],
            transactions = []\<rparr>, [])"
  by code_simp

subsection \<open>Stock summary\<close>

lemma remdups_append_disjoint:
  "set xs \<inter> set ys = {} \<Longrightarrow> remdups (xs @ ys) = remdups xs @ remdups ys"
  by (induction xs) auto

lemma remdups_map_const: "remdups (map (\<lambda>t. k) ts) = (if ts = [] then [] else [k])"
proof (induction ts)
  case Nil
  show ?case by simp
next
  case (Cons t ts)
  then show ?case by (cases ts) auto
qed

lemma first_keys:
  "distinct (map f ps) \<Longrightarrow>
     rev (remdups (rev (concat (map (\<lambda>p. map (\<lambda>t. f p) (g p)) ps))))
       = map f (filter (\<lambda>p. g p \<noteq> []) ps)"
proof (induction ps)
  case Nil
  show ?case by simp
next
  case (Cons p ps)
  let ?rest = "concat (map (\<lambda>p. map (\<lambda>t. f p) (g p)) ps)"
  have "set ?rest \<subseteq> f ` set ps" by auto
  with Cons.prems have "set (rev ?rest) \<inter> set (rev (map (\<lambda>t. f p) (g p))) = {}" by auto
  then have "remdups (rev ?rest @ rev (map (\<lambda>t. f p) (g p)))
      = remdups (rev ?rest) @ remdups (rev (map (\<lambda>t. f p) (g p)))"
    by (rule remdups_append_disjoint)
  moreover have "rev (map (\<lambda>t. f p) (g p)) = map (\<lambda>t. f p) (rev (g p))" by (simp add: rev_map)
  ultimately show ?case using Cons by (simp add: remdups_map_const)
qed

lemma group_rows:
  "distinct (map f ps) \<Longrightarrow> p \<in> set ps \<Longrightarrow>
     filter (\<lambda>(q, t). f q = f p) (concat (map (\<lambda>q. map (\<lambda>t. (q, t)) (g q)) ps))
       = map (\<lambda>t. (p, t)) (g p)"
proof (induction ps)
  case Nil
  then show ?case by simp
next
  case (Cons q ps)
  have none: "filter (\<lambda>(q, t). f q = f p) (concat (map (\<lambda>q. map (\<lambda>t. (q, t)) (g q)) qs)) = []"
    if "f p \<notin> f ` set qs" for qs
    using that by (induction qs) (auto simp: filter_empty_conv)
  show ?case
  proof (cases "q = p")
    case True
    with Cons.prems have "f p \<notin> f ` set ps" by auto
    with True show ?thesis by (simp add: none filter_map o_def)
  next
    case False
    with Cons.prems have "p \<in> set ps" "f q \<noteq> f p" by auto
    with Cons show ?thesis by (simp add: filter_map o_def)
  qed
qed

text \<open>
  When no two products agree on identifier, name, category and stock, the
  groups of the query are the products: the summary lists exactly the products
  with a movement that added stock, each with its own total, by descending
  total.
\<close>

lemma get_stock_summary_per_product:
  assumes "distinct (map group_key (products db))"
  shows "get_stock_summary db =
     sort_key (\<lambda>(i, n, c, total, s). - total)
       (map (product_summary db) (filter (\<lambda>p. added_movements db p \<noteq> []) (products db)))"
proof -
  have joined: "stock_join db = concat (map (\<lambda>p. map (\<lambda>t. (p, t)) (added_movements db p)) (products db))"
    by (simp add: stock_join_def added_movements_def)
  have keys: "map (\<lambda>(p, t). group_key p) (stock_join db)
      = concat (map (\<lambda>p. map (\<lambda>t. group_key p) (added_movements db p)) (products db))"
    by (simp add: joined map_concat o_def)
  have groups: "rev (remdups (rev (map (\<lambda>(p, t). group_key p) (stock_join db))))
      = map group_key (filter (\<lambda>p. added_movements db p \<noteq> []) (products db))"
    unfolding keys using assms by (rule first_keys)
  have total: "total_added (stock_join db) (group_key p)
      = sum_list (map t_quantity_added (added_movements db p))" if "p \<in> set (products db)" for p
    unfolding total_added_def joined
    using group_rows[OF assms that, of "added_movements db"] by (simp add: o_def)
  have rows: "map (\<lambda>(i, n, c, s). (i, n, c, total_added (stock_join db) (i, n, c, s), s))
          (map group_key (filter (\<lambda>p. added_movements db p \<noteq> []) (products db)))
      = map (product_summary db) (filter (\<lambda>p. added_movements db p \<noteq> []) (products db))"
    by (auto simp: product_summary_def group_key_def total[unfolded group_key_def])
  show ?thesis
    unfolding get_stock_summary_def Let_def groups rows ..
qed

lemma get_stock_summary_descending:
  "sorted (map (\<lambda>(i, n, c, total, s). - total) (get_stock_summary db))"
  by (simp add: get_stock_summary_def Let_def)

text \<open>
  C9: the stock summary has one row per product with a movement that added
  stock, with that product's total. The source groups by identifier, name,
  category and stock instead of by product, and identifiers are not unique:
  two products created as "sku1" / "widget" / "tools" that each received 5
  appear as one row with total 10.
\<close>

theorem get_stock_summary_merges_products:
  "(let db1 = fst (add_product empty_database (py ''sku1'') (py ''widget'') (Some (py ''tools'')));
        db2 = fst (add_product db1 (py ''sku1'') (py ''widget'') (Some (py ''tools'')));
        db3 = fst (update_stock db2 1 (py ''2024-01-01'') 5 0 (py ''New stock received''));
        db4 = fst (update_stock db3 2 (py ''2024-01-01'') 5 0 (py ''New stock received''))
    in (map p_uuid (products db4),
        map (\<lambda>t. (t_product_uuid t, t_quantity_added t)) (transactions db4),
        get_stock_summary db4))
   = ([1, 2], [(1, 5), (2, 5)], [((py ''sku1''), (py ''widget''), Some (py ''tools''), 10, 5)])"
  by code_simp

end
